theory Spec2Isabelle
  imports Main "HOL-Library.Word"
begin

section \<open>The tracked pointer of gc\_pointer.h\<close>

text \<open>
  The class template \<open>Pointer<T, size>\<close> keeps one static list \<open>refContainer\<close> of
  \<open>PtrDetails<T>\<close> per specialization. The embedding threads that list, the static flag
  \<open>first\<close> and a trace of the delete expressions the code executes through every member
  function. A raw \<open>T*\<close> is an integer counted in elements of \<open>T\<close> (so \<open>p + n\<close> is pointer
  arithmetic), and \<open>nullptr\<close> is 0. The \<open>unsigned\<close> fields are 32-bit words, so \<open>++\<close> and
  \<open>--\<close> wrap around as they do in the source. The template parameter \<open>int size\<close> is a
  32-bit word read as two's complement: \<open>size > 0\<close> is \<open>0 < sint sz\<close>, and its conversion
  to \<open>unsigned\<close> keeps the bits.
\<close>

type_synonym address = int

abbreviation (input) nullptr :: address where
  "nullptr \<equiv> 0"

subsection \<open>Allocation records\<close>

text \<open>
  \<open>gc_details.h\<close> is not part of the sources. gc\_pointer.h reads the members
  \<open>refcount\<close>, \<open>memPtr\<close> and \<open>isArray\<close> of a record and builds one with
  \<open>emplace_back(ptr, size)\<close>; the element count is the fourth field of the spec's
  Allocation Record.
\<close>

record PtrDetails =
  refcount :: "32 word"
  memPtr :: address
  isArray :: bool
  arraySize :: "32 word"

text \<open>
  Modelled from the spec: the constructor of \<open>PtrDetails\<close> (gc\_details.h). A new record
  has count 1 and is tagged as an array of the given element count if that count is
  greater than zero, else as a scalar.
\<close>

definition PtrDetails_ctor :: "address \<Rightarrow> 32 word \<Rightarrow> PtrDetails" where
  "PtrDetails_ctor ptr sz =
     \<lparr>refcount = 1, memPtr = ptr, isArray = (0 < sint sz), arraySize = sz\<rparr>"

subsection \<open>The state of one specialization\<close>

text \<open>
  \<open>delete [] p\<close> and \<open>delete p\<close> are recorded as events, in the order the code executes
  them. A delete expression also runs the destructor of the element type \<open>T\<close>.
\<close>

datatype dealloc = Delete_Array address | Delete_Scalar address

record gc_state =
  refContainer :: "PtrDetails list"
  first :: bool
  atexit_calls :: nat
  freed :: "dealloc list"

text \<open>Static initialization: an empty list, \<open>first = true\<close>, nothing registered or freed.\<close>

definition initial_state :: gc_state where
  "initial_state = \<lparr>refContainer = [], first = True, atexit_calls = 0, freed = []\<rparr>"

text \<open>The members of one \<open>Pointer\<close> object.\<close>

record Pointer =
  addr :: address
  isArray :: bool
  arraySize :: "32 word"

subsection \<open>findPtrInfo\<close>

text \<open>
  The iterator that \<open>findPtrInfo\<close> returns is the position of the first record whose
  \<open>memPtr\<close> equals the argument; \<open>None\<close> is \<open>refContainer.end()\<close>.
\<close>

fun findPtrInfo :: "address \<Rightarrow> PtrDetails list \<Rightarrow> nat option" where
  "findPtrInfo ptr [] = None"
| "findPtrInfo ptr (p # ps) =
     (if memPtr p = ptr then Some 0 else map_option Suc (findPtrInfo ptr ps))"

subsection \<open>collect\<close>

definition delete_of :: "PtrDetails \<Rightarrow> dealloc" where
  "delete_of p =
     (if PtrDetails.isArray p then Delete_Array (memPtr p) else Delete_Scalar (memPtr p))"

text \<open>
  The loop of \<open>collect\<close> from the iterator's position on: the records still to visit, the
  flag \<open>success\<close> and the trace so far. A record with count 0 is deleted and erased, any
  other is stepped over.
\<close>

fun collect_loop ::
  "PtrDetails list \<Rightarrow> bool \<Rightarrow> dealloc list \<Rightarrow> PtrDetails list \<times> bool \<times> dealloc list" where
  "collect_loop [] success tr = ([], success, tr)"
| "collect_loop (p # ps) success tr =
     (if refcount p = 0 then collect_loop ps True (tr @ [delete_of p])
      else (case collect_loop ps success tr of
              (ps', success', tr') \<Rightarrow> (p # ps', success', tr')))"

definition collect :: "gc_state \<Rightarrow> bool \<times> gc_state" where
  "collect st =
     (case collect_loop (refContainer st) False (freed st) of
        (ps, success, tr) \<Rightarrow> (success, st\<lparr>refContainer := ps, freed := tr\<rparr>))"

text \<open>
  \<open>collect_loop\<close> follows a sweep during which the destructor of the element type
  calls no member function of this class. What code that is entered from a delete
  expression finds is given by \<open>collect_until_delete\<close>: the loop executes the delete
  expression of a record with count 0 (lines 159 and 162) before it erases the record
  (line 164). With the records \<open>kept\<close> behind the iterator and those from the iterator
  on, it returns the list and the trace as they are while the first delete expression of
  the loop runs, and \<open>None\<close> when the loop ends without one. \<open>inside_first_delete\<close> is
  that state for a call of \<open>collect\<close>.
\<close>

fun collect_until_delete ::
  "PtrDetails list \<Rightarrow> PtrDetails list \<Rightarrow> dealloc list \<Rightarrow> (PtrDetails list \<times> dealloc list) option" where
  "collect_until_delete kept [] tr = None"
| "collect_until_delete kept (p # ps) tr =
     (if refcount p = 0 then Some (kept @ p # ps, tr @ [delete_of p])
      else collect_until_delete (kept @ [p]) ps tr)"

definition inside_first_delete :: "gc_state \<Rightarrow> gc_state option" where
  "inside_first_delete st =
     (case collect_until_delete [] (refContainer st) (freed st) of
        None \<Rightarrow> None
      | Some (ps, tr) \<Rightarrow> Some (st\<lparr>refContainer := ps, freed := tr\<rparr>))"

subsection \<open>Destructor, removePointer, addPointer\<close>

definition decrement_at :: "nat \<Rightarrow> PtrDetails list \<Rightarrow> PtrDetails list" where
  "decrement_at i ps = ps[i := (ps ! i)\<lparr>refcount := refcount (ps ! i) - 1\<rparr>]"

definition increment_at :: "nat \<Rightarrow> PtrDetails list \<Rightarrow> PtrDetails list" where
  "increment_at i ps = ps[i := (ps ! i)\<lparr>refcount := refcount (ps ! i) + 1\<rparr>]"

definition Pointer_dtor :: "Pointer \<Rightarrow> gc_state \<Rightarrow> gc_state" where
  "Pointer_dtor this st =
     (let st1 = (case findPtrInfo (addr this) (refContainer st) of
                   Some i \<Rightarrow> st\<lparr>refContainer := decrement_at i (refContainer st)\<rparr>
                 | None \<Rightarrow> st)
      in snd (collect st1))"

text \<open>\<open>removePointer(T* ptr)\<close> looks up the member \<open>addr\<close>, not its argument.\<close>

definition removePointer :: "Pointer \<Rightarrow> address \<Rightarrow> gc_state \<Rightarrow> gc_state" where
  "removePointer this ptr st =
     (let st1 = (case findPtrInfo (addr this) (refContainer st) of
                   Some i \<Rightarrow> st\<lparr>refContainer := decrement_at i (refContainer st)\<rparr>
                 | None \<Rightarrow> st)
      in snd (collect st1))"

text \<open>
  \<open>addPointer(T* ptr, int length)\<close> of the specialization with parameter \<open>sz\<close>. It
  returns the new value of \<open>addr\<close>, the updated object and the updated state.
\<close>

definition addPointer ::
  "32 word \<Rightarrow> Pointer \<Rightarrow> address \<Rightarrow> 32 word \<Rightarrow> gc_state \<Rightarrow> address \<times> Pointer \<times> gc_state" where
  "addPointer sz this ptr len st =
     (let st1 = (case findPtrInfo ptr (refContainer st) of
                   Some i \<Rightarrow> st\<lparr>refContainer := increment_at i (refContainer st)\<rparr>
                 | None \<Rightarrow> st\<lparr>refContainer := refContainer st @ [PtrDetails_ctor ptr sz]\<rparr>);
          this1 = this\<lparr>addr := ptr\<rparr>
      in (addr this1, this1, st1))"

subsection \<open>Constructors and assignment\<close>

text \<open>\<open>Pointer(T *t)\<close>: every member is assigned, so the object needs no prior contents.\<close>

definition Pointer_ctor :: "32 word \<Rightarrow> address \<Rightarrow> gc_state \<Rightarrow> Pointer \<times> gc_state" where
  "Pointer_ctor sz t st =
     (let st1 = (if first st then st\<lparr>atexit_calls := atexit_calls st + 1\<rparr> else st);
          st2 = st1\<lparr>first := False\<rparr>;
          this = \<lparr>addr = t, isArray = (0 < sint sz), arraySize = sz\<rparr>
      in (case addPointer sz this t sz st2 of (r, this1, st3) \<Rightarrow> (this1, st3)))"

text \<open>\<open>operator=(T *t)\<close>.\<close>

definition operator_assign_ptr ::
  "32 word \<Rightarrow> Pointer \<Rightarrow> address \<Rightarrow> gc_state \<Rightarrow> address \<times> Pointer \<times> gc_state" where
  "operator_assign_ptr sz this t st =
     addPointer sz this t sz (removePointer this (addr this) st)"

text \<open>
  \<open>operator=(const Pointer &rv)\<close> is \<open>return *(operator=(&rv));\<close>: the argument handed
  to \<open>operator=(T *)\<close> is the address of the right-hand object itself, \<open>rv_at\<close>; no member
  of \<open>rv\<close> is read. The reference returned is the one to the object at that address.
\<close>

definition operator_assign_Pointer ::
  "32 word \<Rightarrow> Pointer \<Rightarrow> address \<Rightarrow> Pointer \<Rightarrow> gc_state \<Rightarrow> address \<times> Pointer \<times> gc_state" where
  "operator_assign_Pointer sz this rv_at rv st = operator_assign_ptr sz this rv_at st"

text \<open>
  \<open>Pointer(const Pointer &ob)\<close> is \<open>*this = ob;\<close>. No member has been initialized when
  the assignment runs, so the contents \<open>this0\<close> the object starts with are a parameter.
\<close>

definition Pointer_copy_ctor ::
  "32 word \<Rightarrow> Pointer \<Rightarrow> address \<Rightarrow> Pointer \<Rightarrow> gc_state \<Rightarrow> Pointer \<times> gc_state" where
  "Pointer_copy_ctor sz this0 ob_at ob st =
     (case operator_assign_Pointer sz this0 ob_at ob st of (r, this1, st1) \<Rightarrow> (this1, st1))"

text \<open>
  \<open>Pointer()\<close> is \<open>Pointer(nullptr);\<close> as a statement: a temporary is constructed from
  \<open>nullptr\<close> and destroyed at once. The members of the object under construction keep
  the contents \<open>this0\<close> they started with.
\<close>

definition Pointer_default_ctor :: "32 word \<Rightarrow> Pointer \<Rightarrow> gc_state \<Rightarrow> Pointer \<times> gc_state" where
  "Pointer_default_ctor sz this0 st =
     (case Pointer_ctor sz nullptr st of (tmp, st1) \<Rightarrow> (this0, Pointer_dtor tmp st1))"

subsection \<open>shutdown\<close>

text \<open>The list is taken to be shorter than \<open>2^31\<close>, so \<open>int refContainerSize()\<close> is its length.\<close>

definition refContainerSize :: "gc_state \<Rightarrow> int" where
  "refContainerSize st = int (length (refContainer st))"

definition shutdown :: "gc_state \<Rightarrow> gc_state" where
  "shutdown st =
     (if refContainerSize st = 0 then st
      else snd (collect (st\<lparr>refContainer := map (\<lambda>p. p\<lparr>refcount := 0\<rparr>) (refContainer st)\<rparr>)))"

subsection \<open>Observations used in the statements\<close>

text \<open>The records a list holds for one address.\<close>

definition records_at :: "address \<Rightarrow> PtrDetails list \<Rightarrow> PtrDetails list" where
  "records_at a ps = filter (\<lambda>p. memPtr p = a) ps"


subsection \<open>Concrete states\<close>

text \<open>Records, pointers and states for concrete runs of a scalar specialization.\<close>

definition scalar_record :: "address \<Rightarrow> 32 word \<Rightarrow> PtrDetails" where
  "scalar_record a c = \<lparr>refcount = c, memPtr = a, isArray = False, arraySize = 0\<rparr>"

definition scalar_pointer :: "address \<Rightarrow> Pointer" where
  "scalar_pointer a = \<lparr>addr = a, isArray = False, arraySize = 0\<rparr>"

definition ledger :: "PtrDetails list \<Rightarrow> gc_state" where
  "ledger ps = \<lparr>refContainer = ps, first = False, atexit_calls = 1, freed = []\<rparr>"

subsection \<open>Auxiliary notions\<close>

text \<open>
  What a decrement and an increment of the first record for an address do to the records
  of that address: \<open>dec_head\<close> is the \<open>refcount--\<close> of the destructor and of
  \<open>removePointer\<close>, \<open>inc_head\<close> the two branches of \<open>addPointer\<close>.
\<close>

definition dec_head :: "PtrDetails list \<Rightarrow> PtrDetails list" where
  "dec_head rs = (case rs of [] \<Rightarrow> [] | r # rs' \<Rightarrow> r\<lparr>refcount := refcount r - 1\<rparr> # rs')"

definition inc_head :: "32 word \<Rightarrow> address \<Rightarrow> PtrDetails list \<Rightarrow> PtrDetails list" where
  "inc_head sz a rs =
     (case rs of [] \<Rightarrow> [PtrDetails_ctor a sz] | r # rs' \<Rightarrow> r\<lparr>refcount := refcount r + 1\<rparr> # rs')"

subsection \<open>Runs of a specialization\<close>

text \<open>
  The member functions as operations on the state of one specialization, each with the
  object it is called on (for a constructor that assigns no member first: the contents
  the object starts with) and its arguments.
\<close>

datatype operation =
    Construct address
  | Default_construct Pointer
  | Copy_construct Pointer address Pointer
  | Assign_ptr Pointer address
  | Assign_Pointer Pointer address Pointer
  | Destroy Pointer
  | Collect
  | Shutdown

fun apply_operation :: "32 word \<Rightarrow> operation \<Rightarrow> gc_state \<Rightarrow> gc_state" where
  "apply_operation sz (Construct t) st = snd (Pointer_ctor sz t st)"
| "apply_operation sz (Default_construct this0) st = snd (Pointer_default_ctor sz this0 st)"
| "apply_operation sz (Copy_construct this0 ob_at ob) st =
     snd (Pointer_copy_ctor sz this0 ob_at ob st)"
| "apply_operation sz (Assign_ptr this t) st = snd (snd (operator_assign_ptr sz this t st))"
| "apply_operation sz (Assign_Pointer this rv_at rv) st =
     snd (snd (operator_assign_Pointer sz this rv_at rv st))"
| "apply_operation sz (Destroy this) st = Pointer_dtor this st"
| "apply_operation sz Collect st = snd (collect st)"
| "apply_operation sz Shutdown st = shutdown st"

text \<open>
  The array shape of a record, the shape the specialization with parameter \<open>sz\<close>
  prescribes, and the relation between two lists that every record of the second has
  the address and shape of a record of the first or the prescribed shape.
\<close>

definition shape_of :: "PtrDetails \<Rightarrow> address \<times> bool \<times> 32 word" where
  "shape_of r = (memPtr r, PtrDetails.isArray r, PtrDetails.arraySize r)"

definition shape_ok :: "32 word \<Rightarrow> PtrDetails \<Rightarrow> bool" where
  "shape_ok sz r = (PtrDetails.isArray r = (0 < sint sz) \<and> PtrDetails.arraySize r = sz)"

definition shapes_from :: "32 word \<Rightarrow> PtrDetails list \<Rightarrow> PtrDetails list \<Rightarrow> bool" where
  "shapes_from sz ps ps' =
     (set (map shape_of ps') \<subseteq> set (map shape_of ps) \<union> range (\<lambda>x. (x, 0 < sint sz, sz)))"

subsection \<open>The range view\<close>

text \<open>
  Modelled from the spec: the class \<open>Iter\<close> of \<open>gc_iterator.h\<close>, which is not part
  of the sources. A Range View is a current position with a lower and an upper bound,
  constructed from (start address, span lower bound, span upper bound). Dereferencing a
  view positioned at or beyond the upper bound, or outside its recorded span, signals the
  out-of-range error; otherwise it yields the element at the position, which the model
  identifies with its address. Advancing moves the position one element on and is
  permitted past the upper bound. Equality of two views compares the positions only.
\<close>

record Iter =
  current_position :: address
  lower_bound :: address
  upper_bound :: address

datatype range_error = Out_of_range

definition Iter_ctor :: "address \<Rightarrow> address \<Rightarrow> address \<Rightarrow> Iter" where
  "Iter_ctor p lo hi = \<lparr>current_position = p, lower_bound = lo, upper_bound = hi\<rparr>"

definition Iter_deref :: "Iter \<Rightarrow> range_error + address" where
  "Iter_deref it =
     (if upper_bound it \<le> current_position it \<or> current_position it < lower_bound it
      then Inl Out_of_range else Inr (current_position it))"

definition Iter_advance :: "Iter \<Rightarrow> Iter" where
  "Iter_advance it = it\<lparr>current_position := current_position it + 1\<rparr>"

definition Iter_equal :: "Iter \<Rightarrow> Iter \<Rightarrow> bool" where
  "Iter_equal a b = (current_position a = current_position b)"

text \<open>
  \<open>begin()\<close> and \<open>end()\<close> of gc\_pointer.h. The local \<open>int _size\<close> receives the
  \<open>unsigned\<close> member \<open>arraySize\<close> or 1, and is added to \<open>addr\<close> as a signed offset.
\<close>

definition Pointer_begin :: "Pointer \<Rightarrow> Iter" where
  "Pointer_begin this =
     (let size' = (if Pointer.isArray this then Pointer.arraySize this else 1)
      in Iter_ctor (addr this) (addr this) (addr this + sint size'))"

definition Pointer_end :: "Pointer \<Rightarrow> Iter" where
  "Pointer_end this =
     (let size' = (if Pointer.isArray this then Pointer.arraySize this else 1)
      in Iter_ctor (addr this + sint size') (addr this) (addr this + sint size'))"

section \<open>Running the model\<close>

text \<open>The defining equations that evaluate a concrete run.\<close>

lemmas run_defs =
  Pointer_copy_ctor_def operator_assign_Pointer_def operator_assign_ptr_def removePointer_def
  addPointer_def Pointer_dtor_def Pointer_ctor_def Pointer_default_ctor_def collect_def
  decrement_at_def increment_at_def PtrDetails_ctor_def delete_of_def
  scalar_record_def scalar_pointer_def ledger_def Let_def

section \<open>The sweep\<close>

lemma collect_loop_eq:
  "collect_loop ps s tr =
     (filter (\<lambda>p. refcount p \<noteq> 0) ps,
      s \<or> filter (\<lambda>p. refcount p = 0) ps \<noteq> [],
      tr @ map delete_of (filter (\<lambda>p. refcount p = 0) ps))"
  by (induction ps arbitrary: s tr) simp_all

lemma collect_eq:
  "collect st =
     (filter (\<lambda>p. refcount p = 0) (refContainer st) \<noteq> [],
      st\<lparr>refContainer := filter (\<lambda>p. refcount p \<noteq> 0) (refContainer st),
         freed := freed st @ map delete_of (filter (\<lambda>p. refcount p = 0) (refContainer st))\<rparr>)"
  by (simp add: collect_def collect_loop_eq)

lemma refContainer_collect:
  "refContainer (snd (collect st)) = filter (\<lambda>p. refcount p \<noteq> 0) (refContainer st)"
  by (simp add: collect_eq)



lemma first_collect: "first (snd (collect st)) = first st"
  by (simp add: collect_eq)

lemma atexit_collect: "atexit_calls (snd (collect st)) = atexit_calls st"
  by (simp add: collect_eq)



lemma collect_until_delete_Some:
  "collect_until_delete kept ps tr = Some (ps', tr') \<Longrightarrow>
   ps' = kept @ ps \<and> (\<exists>p \<in> set ps. refcount p = 0 \<and> tr' = tr @ [delete_of p])"
  by (induction ps arbitrary: kept) (fastforce split: if_splits)+

text \<open>
  While the first delete expression of a sweep runs, the list is the one the sweep
  started with: the record being deleted is still in it, with count 0.
\<close>

lemma record_listed_during_delete:
  assumes "inside_first_delete st = Some st'"
  shows "refContainer st' = refContainer st
    \<and> (\<exists>p \<in> set (refContainer st'). refcount p = 0 \<and> freed st' = freed st @ [delete_of p])"
  using assms collect_until_delete_Some [of "[]" "refContainer st" "freed st"]
  by (auto simp: inside_first_delete_def split: option.splits)

text \<open>
  C6. The specification asks that a record is removed in the same step as it is
  freed, so that no record is freed twice even when the sweep is re-entered. Take an
  element type whose destructor destroys a \<open>Pointer\<close> member of the same specialization,
  and the list of 100 with count 0 and 200 with count 1. While \<open>collect\<close> executes
  the delete expression for 100, the record of 100 is still listed with count 0. The
  destructor of the member (holding 200, or \<open>nullptr\<close>) runs \<open>collect\<close> again on that
  list, and this nested sweep executes the delete expression for 100 a second time. The
  nested sweep is followed as far as its own delete expressions.
\<close>

theorem nested_sweep_deletes_record_again:
  "inside_first_delete (ledger [scalar_record 100 0, scalar_record 200 1]) =
     Some \<lparr>refContainer = [scalar_record 100 0, scalar_record 200 1],
            first = False, atexit_calls = 1, freed = [Delete_Scalar 100]\<rparr>
   \<and> Pointer_dtor (scalar_pointer 200)
       \<lparr>refContainer = [scalar_record 100 0, scalar_record 200 1],
          first = False, atexit_calls = 1, freed = [Delete_Scalar 100]\<rparr> =
     \<lparr>refContainer = [], first = False, atexit_calls = 1,
        freed = [Delete_Scalar 100, Delete_Scalar 100, Delete_Scalar 200]\<rparr>
   \<and> Pointer_dtor (scalar_pointer nullptr)
       \<lparr>refContainer = [scalar_record 100 0, scalar_record 200 1],
          first = False, atexit_calls = 1, freed = [Delete_Scalar 100]\<rparr> =
     \<lparr>refContainer = [scalar_record 200 1], first = False, atexit_calls = 1,
        freed = [Delete_Scalar 100, Delete_Scalar 100]\<rparr>"
  by (simp add: run_defs inside_first_delete_def)



section \<open>Records of one address\<close>

lemma findPtrInfo_None_iff: "(findPtrInfo a ps = None) = (records_at a ps = [])"
  by (induction ps) (auto simp: records_at_def)

lemma findPtrInfo_SomeD:
  "findPtrInfo a ps = Some i \<Longrightarrow> i < length ps \<and> memPtr (ps ! i) = a"
  by (induction ps arbitrary: i) (auto split: if_splits)

lemma records_at_update_other:
  "memPtr x \<noteq> a \<Longrightarrow> i < length ps \<Longrightarrow> memPtr (ps ! i) \<noteq> a \<Longrightarrow>
   records_at a (ps[i := x]) = records_at a ps"
  by (induction ps arbitrary: i) (auto simp: records_at_def split: nat.splits)

lemma records_at_update_first:
  "findPtrInfo a ps = Some i \<Longrightarrow> memPtr x = a \<Longrightarrow>
   records_at a (ps[i := x]) = x # tl (records_at a ps)"
  by (induction ps arbitrary: i) (auto simp: records_at_def split: if_splits)

lemma records_at_first:
  "findPtrInfo a ps = Some i \<Longrightarrow> records_at a ps = (ps ! i) # tl (records_at a ps)"
  by (induction ps arbitrary: i) (auto simp: records_at_def split: if_splits)

lemma records_at_filter:
  "records_at a (filter P ps) = filter P (records_at a ps)"
  by (induction ps) (auto simp: records_at_def)

lemma records_at_append:
  "records_at a (ps @ qs) = records_at a ps @ records_at a qs"
  by (simp add: records_at_def)

lemma removePointer_eq: "removePointer this ptr st = Pointer_dtor this st"
  by (simp add: removePointer_def Pointer_dtor_def)

lemma records_at_decrement:
  assumes f: "findPtrInfo g ps = Some i"
  shows "records_at a (decrement_at i ps) =
     (if g = a then dec_head (records_at a ps) else records_at a ps)"
proof (cases "g = a")
  case True
  obtain rs where rs: "records_at a ps = (ps ! i) # rs"
    using records_at_first [OF f] True by blast
  have "records_at a (decrement_at i ps) =
      (ps ! i)\<lparr>refcount := refcount (ps ! i) - 1\<rparr> # tl (records_at a ps)"
    unfolding decrement_at_def using f True
    by (intro records_at_update_first) (auto dest: findPtrInfo_SomeD)
  then show ?thesis
    using True by (simp add: rs dec_head_def)
next
  case False
  with f show ?thesis
    unfolding decrement_at_def
    by (auto dest!: findPtrInfo_SomeD intro!: records_at_update_other)
qed

lemma records_at_increment:
  assumes f: "findPtrInfo g ps = Some i"
  shows "records_at a (increment_at i ps) =
     (if g = a then inc_head sz a (records_at a ps) else records_at a ps)"
proof (cases "g = a")
  case True
  obtain rs where rs: "records_at a ps = (ps ! i) # rs"
    using records_at_first [OF f] True by blast
  have "records_at a (increment_at i ps) =
      (ps ! i)\<lparr>refcount := refcount (ps ! i) + 1\<rparr> # tl (records_at a ps)"
    unfolding increment_at_def using f True
    by (intro records_at_update_first) (auto dest: findPtrInfo_SomeD)
  then show ?thesis
    using True by (simp add: rs inc_head_def)
next
  case False
  with f show ?thesis
    unfolding increment_at_def
    by (auto dest!: findPtrInfo_SomeD intro!: records_at_update_other)
qed

lemma dtor_records:
  "records_at a (refContainer (Pointer_dtor q st)) =
     filter (\<lambda>p. refcount p \<noteq> 0)
       (if addr q = a then dec_head (records_at a (refContainer st))
        else records_at a (refContainer st))"
proof (cases "findPtrInfo (addr q) (refContainer st)")
  case None
  then have "addr q = a \<Longrightarrow> records_at a (refContainer st) = []"
    by (simp add: findPtrInfo_None_iff)
  with None show ?thesis
    by (auto simp: Pointer_dtor_def refContainer_collect records_at_filter dec_head_def)
next
  case (Some i)
  then show ?thesis
    by (simp add: Pointer_dtor_def refContainer_collect records_at_filter records_at_decrement)
qed

lemma addPointer_records:
  "records_at a (refContainer (snd (snd (addPointer sz this x len st)))) =
     (if x = a then inc_head sz a (records_at a (refContainer st))
      else records_at a (refContainer st))"
proof (cases "findPtrInfo x (refContainer st)")
  case None
  then have "x = a \<Longrightarrow> records_at a (refContainer st) = []"
    by (simp add: findPtrInfo_None_iff)
  with None show ?thesis
    by (auto simp: addPointer_def records_at_append inc_head_def)
      (simp_all add: records_at_def PtrDetails_ctor_def)
next
  case (Some i)
  then show ?thesis
    by (simp add: addPointer_def records_at_increment [where sz = sz])
qed





section \<open>Assignment of a raw address\<close>







section \<open>Construction\<close>

lemma findPtrInfo_None_set: "(findPtrInfo a ps = None) = (a \<notin> set (map memPtr ps))"
  by (induction ps) auto

lemma records_Pointer_ctor:
  "records_at a (refContainer (snd (Pointer_ctor sz t st))) =
     (if t = a then inc_head sz a (records_at a (refContainer st))
      else records_at a (refContainer st))"
  by (simp add: Pointer_ctor_def Let_def case_prod_beta addPointer_records)

text \<open>
  C3, as far as the code has it by design. \<open>findPtrInfo\<close> compares addresses and
  nothing else, so a lookup of \<open>nullptr\<close> fails exactly when no record has \<open>nullptr\<close> as
  its address; constructing a pointer from \<open>nullptr\<close> increments the first such record
  or appends one with count 1, and the destructor of a pointer that holds \<open>nullptr\<close>
  decrements that record and sweeps it like any other.
\<close>

theorem null_is_tracked_like_any_address:
  "(findPtrInfo nullptr ps = None) = (nullptr \<notin> set (map memPtr ps))
   \<and> records_at nullptr (refContainer (snd (Pointer_ctor sz nullptr st))) =
       (case records_at nullptr (refContainer st) of
          [] \<Rightarrow> [\<lparr>refcount = 1, memPtr = nullptr, isArray = (0 < sint sz), arraySize = sz\<rparr>]
        | q # qs \<Rightarrow> q\<lparr>refcount := refcount q + 1\<rparr> # qs)
   \<and> records_at nullptr (refContainer (Pointer_dtor (q\<lparr>addr := nullptr\<rparr>) st)) =
       filter (\<lambda>p. refcount p \<noteq> 0) (dec_head (records_at nullptr (refContainer st)))"
  by (simp add: findPtrInfo_None_set records_Pointer_ctor inc_head_def PtrDetails_ctor_def
      dtor_records split: list.splits)

text \<open>
  The property as the specification states it fails on the empty list: constructing
  from \<open>nullptr\<close> inserts a record that a lookup of \<open>nullptr\<close> finds, and destroying
  that pointer decrements the record to 0 and deletes it. Default construction yields neither that list nor that
  object: its list is empty again and its members are the ones it started with.
\<close>

theorem null_lookup_counterexample:
  "refContainer (snd (Pointer_ctor 0 nullptr initial_state)) = [scalar_record nullptr 1]
   \<and> findPtrInfo nullptr (refContainer (snd (Pointer_ctor 0 nullptr initial_state))) = Some 0
   \<and> refContainer (Pointer_dtor (fst (Pointer_ctor 0 nullptr initial_state))
        (snd (Pointer_ctor 0 nullptr initial_state))) = []
   \<and> freed (Pointer_dtor (fst (Pointer_ctor 0 nullptr initial_state))
        (snd (Pointer_ctor 0 nullptr initial_state))) = [Delete_Scalar nullptr]
   \<and> refContainer (snd (Pointer_default_ctor 0 (scalar_pointer 555) initial_state)) = []
   \<and> fst (Pointer_default_ctor 0 (scalar_pointer 555) initial_state) = scalar_pointer 555
   \<and> fst (Pointer_ctor 0 nullptr initial_state) = scalar_pointer nullptr"
  by (simp add: run_defs initial_state_def)

section \<open>Array shapes\<close>

lemma shape_of_refcount: "shape_of (r\<lparr>refcount := c\<rparr>) = shape_of r"
  by (simp add: shape_of_def)

lemma shapes_update:
  "map shape_of (ps[i := (ps ! i)\<lparr>refcount := c\<rparr>]) = map shape_of ps"
  by (induction ps arbitrary: i) (auto split: nat.splits simp: shape_of_refcount)

lemma shapes_from_refl: "shapes_from sz ps ps"
  by (auto simp: shapes_from_def)

lemma shapes_from_trans:
  "shapes_from sz ps ps' \<Longrightarrow> shapes_from sz ps' ps'' \<Longrightarrow> shapes_from sz ps ps''"
  unfolding shapes_from_def by blast

lemma shapes_from_collect: "shapes_from sz (refContainer st) (refContainer (snd (collect st)))"
  by (auto simp: shapes_from_def refContainer_collect)

lemma shapes_decrement: "map shape_of (decrement_at i ps) = map shape_of ps"
  by (simp add: decrement_at_def shapes_update)

lemma shapes_increment: "map shape_of (increment_at i ps) = map shape_of ps"
  by (simp add: increment_at_def shapes_update)

lemma shapes_from_filter: "shapes_from sz ps ps' \<Longrightarrow> shapes_from sz ps (filter P ps')"
  by (auto simp: shapes_from_def)

lemma shapes_from_same: "map shape_of ps' = map shape_of ps \<Longrightarrow> shapes_from sz ps ps'"
  by (simp add: shapes_from_def)

lemma shapes_from_dtor: "shapes_from sz (refContainer st) (refContainer (Pointer_dtor q st))"
proof (cases "findPtrInfo (addr q) (refContainer st)")
  case None
  then show ?thesis
    by (simp add: Pointer_dtor_def refContainer_collect shapes_from_filter shapes_from_refl)
next
  case (Some i)
  have "shapes_from sz (refContainer st) (decrement_at i (refContainer st))"
    by (rule shapes_from_same) (rule shapes_decrement)
  then show ?thesis
    using Some by (simp add: Pointer_dtor_def refContainer_collect shapes_from_filter)
qed

lemma shapes_from_add:
  "shapes_from sz (refContainer st) (refContainer (snd (snd (addPointer sz this x len st))))"
proof (cases "findPtrInfo x (refContainer st)")
  case None
  then show ?thesis
    by (auto simp: addPointer_def shapes_from_def shape_of_def PtrDetails_ctor_def)
next
  case (Some i)
  have "shapes_from sz (refContainer st) (increment_at i (refContainer st))"
    by (rule shapes_from_same) (rule shapes_increment)
  then show ?thesis
    using Some by (simp add: addPointer_def)
qed

lemma shapes_from_assign_ptr:
  "shapes_from sz (refContainer st) (refContainer (snd (snd (operator_assign_ptr sz this t st))))"
  unfolding operator_assign_ptr_def removePointer_eq
  by (rule shapes_from_trans [OF shapes_from_dtor shapes_from_add])

lemma shapes_from_ctor:
  "shapes_from sz (refContainer st) (refContainer (snd (Pointer_ctor sz t st)))"
  using shapes_from_add [of sz "st\<lparr>first := False\<rparr>"]
    shapes_from_add [of sz "st\<lparr>atexit_calls := atexit_calls st + 1, first := False\<rparr>"]
  by (simp add: Pointer_ctor_def Let_def case_prod_beta)

lemma shapes_from_shutdown: "shapes_from sz (refContainer st) (refContainer (shutdown st))"
  by (simp add: shutdown_def refContainer_collect shapes_from_def)

lemma shapes_from_operation:
  "shapes_from sz (refContainer st) (refContainer (apply_operation sz op st))"
proof (cases op)
  case (Construct t)
  then show ?thesis by (simp add: shapes_from_ctor)
next
  case (Default_construct this0)
  have "shapes_from sz (refContainer st) (refContainer (snd (Pointer_ctor sz nullptr st)))"
    by (rule shapes_from_ctor)
  then have "shapes_from sz (refContainer st)
      (refContainer (Pointer_dtor (fst (Pointer_ctor sz nullptr st))
        (snd (Pointer_ctor sz nullptr st))))"
    by (rule shapes_from_trans) (rule shapes_from_dtor)
  then show ?thesis
    using Default_construct by (simp add: Pointer_default_ctor_def case_prod_beta)
next
  case (Copy_construct this0 ob_at ob)
  then show ?thesis
    by (simp add: Pointer_copy_ctor_def operator_assign_Pointer_def case_prod_beta
        shapes_from_assign_ptr)
next
  case (Assign_ptr this t)
  then show ?thesis by (simp add: shapes_from_assign_ptr)
next
  case (Assign_Pointer this rv_at rv)
  then show ?thesis by (simp add: operator_assign_Pointer_def shapes_from_assign_ptr)
next
  case (Destroy this)
  then show ?thesis by (simp add: shapes_from_dtor)
next
  case Collect
  then show ?thesis by (simp add: shapes_from_collect)
next
  case Shutdown
  then show ?thesis by (simp add: shapes_from_shutdown)
qed

lemma shape_ok_from:
  "shapes_from sz ps ps' \<Longrightarrow> list_all (shape_ok sz) ps \<Longrightarrow> list_all (shape_ok sz) ps'"
  unfolding shapes_from_def list_all_iff shape_ok_def shape_of_def
  by (auto simp: image_iff subset_iff)

lemma shape_ok_fold:
  "list_all (shape_ok sz) (refContainer st) \<Longrightarrow>
   list_all (shape_ok sz) (refContainer (fold (apply_operation sz) ops st))"
proof (induction ops arbitrary: st)
  case Nil
  then show ?case by simp
next
  case (Cons op ops)
  have "list_all (shape_ok sz) (refContainer (apply_operation sz op st))"
    using shapes_from_operation Cons.prems by (rule shape_ok_from)
  then show ?case
    using Cons.IH by simp
qed

lemma addPointer_ignores_length:
  "addPointer sz this ptr len st = addPointer sz this ptr len' st"
  by (simp add: addPointer_def)

text \<open>
  C10. In every state a specialization with parameter \<open>sz\<close> reaches from its static
  initialization, by any sequence of member functions on any objects, every record is
  flagged as an array exactly when \<open>sz > 0\<close> and has element count \<open>sz\<close>.
  \<open>addPointer\<close> does not depend on its argument \<open>length\<close>. From any state, an operation
  leaves every record with an address and shape some record had before, or with the
  shape of the specialization.
\<close>

theorem ledger_has_one_array_shape:
  "list_all (shape_ok sz) (refContainer (fold (apply_operation sz) ops initial_state))
   \<and> shape_ok sz r = (PtrDetails.isArray r = (0 < sint sz) \<and> PtrDetails.arraySize r = sz)
   \<and> addPointer sz this ptr len st = addPointer sz this ptr len' st
   \<and> set (map shape_of (refContainer (apply_operation sz op st)))
        \<subseteq> set (map shape_of (refContainer st)) \<union> range (\<lambda>x. (x, 0 < sint sz, sz))
   \<and> shape_of r = (memPtr r, PtrDetails.isArray r, PtrDetails.arraySize r)"
proof -
  have "list_all (shape_ok sz) (refContainer initial_state)"
    by (simp add: initial_state_def)
  then have "list_all (shape_ok sz) (refContainer (fold (apply_operation sz) ops initial_state))"
    by (rule shape_ok_fold)
  moreover have "set (map shape_of (refContainer (apply_operation sz op st)))
        \<subseteq> set (map shape_of (refContainer st)) \<union> range (\<lambda>x. (x, 0 < sint sz, sz))"
    using shapes_from_operation [of sz st op] by (simp add: shapes_from_def)
  ultimately show ?thesis
    by (simp add: shape_ok_def shape_of_def addPointer_def)
qed

theorem ledger_has_one_array_shape_witness:
  "refContainer (fold (apply_operation 5)
          [Construct 100, Copy_construct (scalar_pointer 555) 7000 (scalar_pointer 100),
           Assign_ptr (scalar_pointer 7000) 200, Default_construct (scalar_pointer 555)]
          initial_state) =
     [\<lparr>refcount = 1, memPtr = 100, isArray = True, arraySize = 5\<rparr>,
      \<lparr>refcount = 1, memPtr = 200, isArray = True, arraySize = 5\<rparr>]
   \<and> list_all (shape_ok 5) (refContainer (fold (apply_operation 5)
          [Construct 100, Copy_construct (scalar_pointer 555) 7000 (scalar_pointer 100),
           Assign_ptr (scalar_pointer 7000) 200, Default_construct (scalar_pointer 555)]
          initial_state))"
proof -
  have run: "refContainer (fold (apply_operation 5)
          [Construct 100, Copy_construct (scalar_pointer 555) 7000 (scalar_pointer 100),
           Assign_ptr (scalar_pointer 7000) 200, Default_construct (scalar_pointer 555)]
          initial_state) =
     [\<lparr>refcount = 1, memPtr = 100, isArray = True, arraySize = 5\<rparr>,
      \<lparr>refcount = 1, memPtr = 200, isArray = True, arraySize = 5\<rparr>]"
    by (simp add: run_defs initial_state_def)
  show ?thesis
    using ledger_has_one_array_shape
      [of 5 "[Construct 100, Copy_construct (scalar_pointer 555) 7000 (scalar_pointer 100),
           Assign_ptr (scalar_pointer 7000) 200, Default_construct (scalar_pointer 555)]"]
      run
    by (simp only: simp_thms)
qed

section \<open>The range view of a pointer\<close>

text \<open>
  C9. The specification asks that for every pointer the view of \<open>begin()\<close> and
  \<open>end()\<close> spans one element for a scalar allocation. \<open>Pointer()\<close> assigns no member and
  \<open>operator=(T*)\<close> assigns only \<open>addr\<close>. In the scalar specialization, a
  default-constructed pointer whose members start as (555, true, 77) and that is then
  assigned the address 1000 has a view from 1000 to 1077: advanced once it dereferences
  to the element at 1001 and differs from \<open>end()\<close>. A pointer constructed from 1000 by
  \<open>Pointer(T*)\<close> has the view from 1000 to 1001, and advanced once it signals the
  out-of-range error.
\<close>

theorem default_constructed_view_follows_stale_members:
  "Pointer_default_ctor 0 \<lparr>addr = 555, isArray = True, arraySize = 77\<rparr> initial_state =
     (\<lparr>addr = 555, isArray = True, arraySize = 77\<rparr>,
      \<lparr>refContainer = [], first = False, atexit_calls = 1, freed = [Delete_Scalar nullptr]\<rparr>)
   \<and> operator_assign_ptr 0 \<lparr>addr = 555, isArray = True, arraySize = 77\<rparr> 1000
       \<lparr>refContainer = [], first = False, atexit_calls = 1, freed = [Delete_Scalar nullptr]\<rparr> =
     (1000, \<lparr>addr = 1000, isArray = True, arraySize = 77\<rparr>,
      \<lparr>refContainer = [scalar_record 1000 1], first = False, atexit_calls = 1,
         freed = [Delete_Scalar nullptr]\<rparr>)
   \<and> Pointer_begin \<lparr>addr = 1000, isArray = True, arraySize = 77\<rparr> =
       \<lparr>current_position = 1000, lower_bound = 1000, upper_bound = 1077\<rparr>
   \<and> Pointer_end \<lparr>addr = 1000, isArray = True, arraySize = 77\<rparr> =
       \<lparr>current_position = 1077, lower_bound = 1000, upper_bound = 1077\<rparr>
   \<and> Iter_deref (Iter_advance (Pointer_begin \<lparr>addr = 1000, isArray = True, arraySize = 77\<rparr>)) =
       Inr 1001
   \<and> \<not> Iter_equal (Iter_advance (Pointer_begin \<lparr>addr = 1000, isArray = True, arraySize = 77\<rparr>))
         (Pointer_end \<lparr>addr = 1000, isArray = True, arraySize = 77\<rparr>)
   \<and> Pointer_begin (fst (Pointer_ctor 0 1000 initial_state)) =
       \<lparr>current_position = 1000, lower_bound = 1000, upper_bound = 1001\<rparr>
   \<and> Iter_deref (Iter_advance (Pointer_begin (fst (Pointer_ctor 0 1000 initial_state)))) =
       Inl Out_of_range"
  by (simp add: run_defs initial_state_def Pointer_begin_def Pointer_end_def Iter_ctor_def
      Iter_deref_def Iter_advance_def Iter_equal_def)

section \<open>Assignment and copy from another pointer\<close>


text \<open>
  C4. The specification asks that after \<open>p = q\<close> or a copy construction from \<open>q\<close>, which holds
  \<open>a\<close>, the record of \<open>a\<close> is incremented once and the left-hand pointer holds the address,
  array flag and element count of \<open>q\<close>. The code hands \<open>&rv\<close> to \<open>operator=(T*)\<close>. With
  \<open>q\<close> at 7000 holding 100 and \<open>p\<close> holding 200: \<open>p = q\<close> releases 200, leaves the record
  of 100 at count 1, appends a record for 7000 and makes \<open>p\<close> hold 7000. A copy
  construction does the same from whatever the new object's members contain, and keeps
  those contents for its array flag and element count. For every input the left-hand
  object ends as it was with \<open>addr\<close> set to the location of the right-hand object.
\<close>

theorem copy_takes_object_address_not_held_address:
  "operator_assign_Pointer 0 (scalar_pointer 200) 7000 (scalar_pointer 100)
       (ledger [scalar_record 100 1, scalar_record 200 1]) =
     (7000, scalar_pointer 7000,
      \<lparr>refContainer = [scalar_record 100 1, scalar_record 7000 1],
         first = False, atexit_calls = 1, freed = [Delete_Scalar 200]\<rparr>)
   \<and> Pointer_copy_ctor 0 (scalar_pointer 555) 7000 (scalar_pointer 100)
       (ledger [scalar_record 100 1]) =
     (scalar_pointer 7000,
      \<lparr>refContainer = [scalar_record 100 1, scalar_record 7000 1],
         first = False, atexit_calls = 1, freed = []\<rparr>)
   \<and> Pointer_copy_ctor 5 \<lparr>addr = 555, isArray = False, arraySize = 77\<rparr> 7000
       \<lparr>addr = 100, isArray = True, arraySize = 5\<rparr>
       (ledger [\<lparr>refcount = 1, memPtr = 100, isArray = True, arraySize = 5\<rparr>]) =
     (\<lparr>addr = 7000, isArray = False, arraySize = 77\<rparr>,
      \<lparr>refContainer = [\<lparr>refcount = 1, memPtr = 100, isArray = True, arraySize = 5\<rparr>,
                        \<lparr>refcount = 1, memPtr = 7000, isArray = True, arraySize = 5\<rparr>],
         first = False, atexit_calls = 1, freed = []\<rparr>)
   \<and> fst (snd (operator_assign_Pointer sz this rv_at rv st)) = this\<lparr>addr := rv_at\<rparr>"
  by (simp add: run_defs)

text \<open>
  C2. The specification asks that assigning a pointer to itself, or to another pointer that
  shares its address, leaves the record's count as it was and never frees the address
  during the assignment. With \<open>p\<close> at 7000 the only holder of 100: the first step of the
  assignment, \<open>removePointer\<close>, takes the count to 0 and the sweep deletes 100 and erases
  its record; \<open>p = p\<close> then registers 7000, and \<open>p = (T*)p\<close> registers the deleted 100
  again with count 1. With two holders of 100 and the other one at 7100, \<open>p = q\<close> leaves
  the count of 100 at 1 instead of 2.
\<close>

theorem self_assignment_frees_held_address:
  "removePointer (scalar_pointer 100) 100 (ledger [scalar_record 100 1]) =
     \<lparr>refContainer = [], first = False, atexit_calls = 1, freed = [Delete_Scalar 100]\<rparr>
   \<and> operator_assign_Pointer 0 (scalar_pointer 100) 7000 (scalar_pointer 100)
       (ledger [scalar_record 100 1]) =
     (7000, scalar_pointer 7000,
      \<lparr>refContainer = [scalar_record 7000 1],
         first = False, atexit_calls = 1, freed = [Delete_Scalar 100]\<rparr>)
   \<and> operator_assign_ptr 0 (scalar_pointer 100) 100 (ledger [scalar_record 100 1]) =
     (100, scalar_pointer 100,
      \<lparr>refContainer = [scalar_record 100 1],
         first = False, atexit_calls = 1, freed = [Delete_Scalar 100]\<rparr>)
   \<and> operator_assign_Pointer 0 (scalar_pointer 100) 7100 (scalar_pointer 100)
       (ledger [scalar_record 100 2]) =
     (7100, scalar_pointer 7100,
      \<lparr>refContainer = [scalar_record 100 1, scalar_record 7100 1],
         first = False, atexit_calls = 1, freed = []\<rparr>)"
  by (simp add: run_defs)

end
